theory Spec2Isabelle
  imports Main "HOL-Library.Sublist" "HOL-Library.Multiset"
begin

section \<open>Data model of the spreadsheet backend\<close>

text \<open>
  The backend is the Apps Script program exported as \<^verbatim>\<open>codeString\<close> in
  \<^verbatim>\<open>src/components/pages/BookingForm.tsx\<close>. A thrown \<^verbatim>\<open>new Error(msg)\<close> is the value
  \<open>Inl (Error msg)\<close> of a sum type. An endpoint that writes returns its outcome together
  with the spreadsheet it leaves behind, also when it throws.
\<close>

datatype error = Error string

text \<open>
  What \<^verbatim>\<open>getValues()\<close> returns for a cell of the \<^verbatim>\<open>date\<close> column: a Date object
  (\<open>DateCell t\<close>, with \<open>t\<close> the instant in milliseconds since the epoch; a Date read
  from a sheet is never the Invalid Date), or something that is not a Date
  (\<open>OtherCell s\<close>, the cell's text; \<open>OtherCell ''''\<close> is the empty cell, the only falsy one).
\<close>

datatype cell_date = DateCell int | OtherCell string

text \<open>
  A row of the \<^verbatim>\<open>Bookings\<close> sheet as \<^verbatim>\<open>sheetDataToObject\<close> returns it, one field per header
  of \<^verbatim>\<open>DB_CONFIG.Bookings\<close> (\<open>bid\<close> is \<^verbatim>\<open>id\<close>, \<open>btype\<close> is \<^verbatim>\<open>type\<close>).
  \<^item> \<open>period\<close> is the number in the cell, a whole number that a double holds; an empty
    period cell is the number 0, which the source cannot tell from it (\<^verbatim>\<open>'' == 0\<close> holds
    and \<^verbatim>\<open>periodTimes['']\<close>, \<^verbatim>\<open>periodTimes[0]\<close> are both undefined).
  \<^item> \<open>equipment\<close> is \<open>Some xs\<close> when the parsed cell is an array and \<open>None\<close> otherwise
    (the empty cell among them).
  \<^item> \<open>createdAt\<close> and \<open>returnedAt\<close> hold ISO time stamps; the model keeps the instant
    (milliseconds), so \<^verbatim>\<open>new Date(b.createdAt)\<close> is the field itself and
    \<^verbatim>\<open>new Date().toISOString()\<close> is the current instant. An empty \<^verbatim>\<open>returnedAt\<close> is \<open>None\<close>.
\<close>

record booking =
  bid :: string
  userId :: string
  btype :: string
  teacherName :: string
  program :: string
  classroom :: string
  period :: int
  date :: cell_date
  equipment :: "string list option"
  learningPlan :: string
  status :: string
  createdAt :: int
  returnedAt :: "int option"
  returnedBy :: string

section \<open>Derived status\<close>

text \<open>The table \<^verbatim>\<open>periodTimes\<close>: for each period its start and end as [hour, minute].\<close>

definition periodTimes :: "int \<Rightarrow> ((int \<times> int) \<times> (int \<times> int)) option" where
  "periodTimes p =
     (if p = 1 then Some ((8, 40), (9, 40))
      else if p = 2 then Some ((9, 40), (10, 40))
      else if p = 3 then Some ((10, 40), (11, 40))
      else if p = 4 then Some ((12, 40), (13, 40))
      else if p = 5 then Some ((13, 40), (14, 40))
      else if p = 6 then Some ((14, 50), (15, 50))
      else None)"

text \<open>
  \<^verbatim>\<open>new Date(d.getFullYear(), d.getMonth(), d.getDate(), h, m)\<close>: the instant at which the
  script's clock shows \<open>h:m\<close> on the calendar day of \<open>d\<close>. The script's time zone is a
  project setting that is not part of the source; it is the parameter \<open>off\<close>, its offset
  from UTC in milliseconds (a zone with a fixed offset, as Asia/Bangkok is).
\<close>

definition localDate :: "int \<Rightarrow> int \<Rightarrow> (int \<times> int) \<Rightarrow> int" where
  "localDate off d hm =
     ((d + off) div 86400000) * 86400000 - off + (fst hm * 60 + snd hm) * 60000"

text \<open>The body of the \<^verbatim>\<open>bookings.map(b => ...)\<close> of \<^verbatim>\<open>calculateBookingStatus\<close>.\<close>

definition calculateBookingStatus_row :: "int \<Rightarrow> int \<Rightarrow> booking \<Rightarrow> booking" where
  "calculateBookingStatus_row off now b =
     (if status b \<in> set [''Returned'', ''Not Used'', ''Cancelled''] then b
      else case date b of
        OtherCell s \<Rightarrow> b
      | DateCell bookingDate \<Rightarrow>
          (case periodTimes (period b) of
             None \<Rightarrow> b
           | Some periodInfo \<Rightarrow>
               (let startTime = localDate off bookingDate (fst periodInfo);
                    endTime = localDate off bookingDate (snd periodInfo)
                in if now \<ge> startTime \<and> now \<le> endTime then b\<lparr>status := ''In Use''\<rparr>
                   else if now > endTime then b\<lparr>status := ''Pending Return''\<rparr>
                   else b\<lparr>status := ''Booked''\<rparr>)))"

definition calculateBookingStatus :: "int \<Rightarrow> int \<Rightarrow> booking list \<Rightarrow> booking list" where
  "calculateBookingStatus off now bookings = map (calculateBookingStatus_row off now) bookings"

text \<open>
  The windows as the specification words them, in minutes after midnight:
  period 1 is 08:40-09:40, 2 is 09:40-10:40, 3 is 10:40-11:40, 4 is 12:40-13:40,
  5 is 13:40-14:40 and 6 is 14:50-15:50.
\<close>

definition spec_window :: "int \<Rightarrow> int \<times> int" where
  "spec_window p =
     (if p = 1 then (8 * 60 + 40, 9 * 60 + 40)
      else if p = 2 then (9 * 60 + 40, 10 * 60 + 40)
      else if p = 3 then (10 * 60 + 40, 11 * 60 + 40)
      else if p = 4 then (12 * 60 + 40, 13 * 60 + 40)
      else if p = 5 then (13 * 60 + 40, 14 * 60 + 40)
      else (14 * 60 + 50, 15 * 60 + 50))"

text \<open>Midnight, on the script's clock, of the calendar day of the instant \<open>d\<close>.\<close>

definition midnight :: "int \<Rightarrow> int \<Rightarrow> int" where
  "midnight off d = ((d + off) div 86400000) * 86400000 - off"

section \<open>The sheets and the requests\<close>

text \<open>Rows of the \<^verbatim>\<open>Users\<close> sheet (\<open>uid\<close> is \<^verbatim>\<open>id\<close>, \<open>uname\<close> is \<^verbatim>\<open>name\<close>); \<open>password\<close>
  holds the stored hash.\<close>

record user =
  uid :: string
  uname :: string
  username :: string
  password :: string
  role :: string

text \<open>The object \<^verbatim>\<open>const { password, ...userWithoutPassword } = user\<close>.\<close>

record userWithoutPassword =
  wp_id :: string
  wp_name :: string
  wp_username :: string
  wp_role :: string

record classroom_row =
  c_id :: string
  c_program :: string
  c_name_th :: string
  c_name_en :: string

record equipment_row =
  e_id :: string
  e_name_th :: string
  e_name_en :: string

text \<open>The spreadsheet \<^verbatim>\<open>getDB()\<close> returns: its four sheets, each the list of row objects
  below the header line, in sheet order.\<close>

record db =
  Users :: "user list"
  Bookings :: "booking list"
  Classrooms :: "classroom_row list"
  Equipment :: "equipment_row list"

text \<open>What one execution reads from its environment: \<^verbatim>\<open>new Date()\<close> and
  \<^verbatim>\<open>Utilities.getUuid()\<close>.\<close>

record env =
  now :: int
  uuid :: string

text \<open>
  The \<^verbatim>\<open>data\<close> object of a request: any subset of the fields of a booking (\<open>None\<close> is an
  absent key). A request is JSON, so its \<^verbatim>\<open>date\<close> is text, and \<open>d_period\<close> is the whole
  number its text writes.
\<close>

record booking_data =
  d_id :: "string option"
  d_userId :: "string option"
  d_type :: "string option"
  d_teacherName :: "string option"
  d_program :: "string option"
  d_classroom :: "string option"
  d_period :: "int option"
  d_date :: "string option"
  d_equipment :: "string list option"
  d_learningPlan :: "string option"
  d_status :: "string option"
  d_createdAt :: "int option"
  d_returnedAt :: "int option"
  d_returnedBy :: "string option"

definition noData :: booking_data where
  "noData = \<lparr>d_id = None, d_userId = None, d_type = None, d_teacherName = None,
     d_program = None, d_classroom = None, d_period = None, d_date = None,
     d_equipment = None, d_learningPlan = None, d_status = None, d_createdAt = None,
     d_returnedAt = None, d_returnedBy = None\<rparr>"

section \<open>Writing rows\<close>

text \<open>
  \<^verbatim>\<open>JSON.parse\<close> reads a number as a double: a whole number below \<open>2^53\<close> in size is
  read as it is, a larger one is rounded to 53 significant bits, ties to even (sizes
  beyond the doubles, read as Infinity, are not modelled). \<open>bits a\<close> is the number of
  binary digits of \<open>a\<close>.
\<close>

function bits :: "int \<Rightarrow> nat" where
  "bits a = (if a \<le> 0 then 0 else Suc (bits (a div 2)))"
  by pat_completeness auto
termination
  by (relation "measure nat") auto

declare bits.simps [simp del]

definition readNumber :: "int \<Rightarrow> int" where
  "readNumber n =
     (if \<bar>n\<bar> < 2 ^ 53 then n
      else (let k = bits \<bar>n\<bar> - 53;
                q = \<bar>n\<bar> div 2 ^ k;
                r = \<bar>n\<bar> mod 2 ^ k
            in sgn n * (if 2 * r > 2 ^ k \<or> (2 * r = 2 ^ k \<and> odd q) then q + 1 else q) * 2 ^ k))"

text \<open>\<^verbatim>\<open>value !== undefined ? value : ''\<close> of \<^verbatim>\<open>prepareRow\<close>, for a text column.\<close>

definition orEmpty :: "string option \<Rightarrow> string" where
  "orEmpty v = (case v of Some s \<Rightarrow> s | None \<Rightarrow> [])"

text \<open>
  \<^verbatim>\<open>{ ...row, ...dataToUpdate }\<close> followed by \<^verbatim>\<open>prepareRow\<close>: a key of the request replaces the
  field, every other field keeps the value read from the sheet. What the \<^verbatim>\<open>date\<close> column
  holds after a text has been written to it is decided by the spreadsheet (it turns text it
  recognises as a date into a date value); that is the parameter \<open>toCell\<close>.
\<close>

definition spread :: "(string \<Rightarrow> cell_date) \<Rightarrow> booking \<Rightarrow> booking_data \<Rightarrow> booking" where
  "spread toCell row d =
     \<lparr>bid = (case d_id d of Some v \<Rightarrow> v | None \<Rightarrow> bid row),
      userId = (case d_userId d of Some v \<Rightarrow> v | None \<Rightarrow> userId row),
      btype = (case d_type d of Some v \<Rightarrow> v | None \<Rightarrow> btype row),
      teacherName = (case d_teacherName d of Some v \<Rightarrow> v | None \<Rightarrow> teacherName row),
      program = (case d_program d of Some v \<Rightarrow> v | None \<Rightarrow> program row),
      classroom = (case d_classroom d of Some v \<Rightarrow> v | None \<Rightarrow> classroom row),
      period = (case d_period d of Some v \<Rightarrow> readNumber v | None \<Rightarrow> period row),
      date = (case d_date d of Some v \<Rightarrow> toCell v | None \<Rightarrow> date row),
      equipment = (case d_equipment d of Some v \<Rightarrow> Some v | None \<Rightarrow> equipment row),
      learningPlan = (case d_learningPlan d of Some v \<Rightarrow> v | None \<Rightarrow> learningPlan row),
      status = (case d_status d of Some v \<Rightarrow> v | None \<Rightarrow> status row),
      createdAt = (case d_createdAt d of Some v \<Rightarrow> v | None \<Rightarrow> createdAt row),
      returnedAt = (case d_returnedAt d of Some v \<Rightarrow> Some v | None \<Rightarrow> returnedAt row),
      returnedBy = (case d_returnedBy d of Some v \<Rightarrow> v | None \<Rightarrow> returnedBy row)\<rparr>"

text \<open>
  The row of the Add branch: \<^verbatim>\<open>{ ...data, id: newId }\<close>, then \<^verbatim>\<open>createdAt\<close> and
  \<^verbatim>\<open>status\<close> are overwritten; an absent key is written as the empty cell.
\<close>

definition newRecord :: "(string \<Rightarrow> cell_date) \<Rightarrow> env \<Rightarrow> booking_data \<Rightarrow> booking" where
  "newRecord toCell e d =
     \<lparr>bid = uuid e,
      userId = orEmpty (d_userId d),
      btype = orEmpty (d_type d),
      teacherName = orEmpty (d_teacherName d),
      program = orEmpty (d_program d),
      classroom = orEmpty (d_classroom d),
      period = (case d_period d of Some v \<Rightarrow> readNumber v | None \<Rightarrow> 0),
      date = (case d_date d of Some v \<Rightarrow> toCell v | None \<Rightarrow> OtherCell []),
      equipment = d_equipment d,
      learningPlan = orEmpty (d_learningPlan d),
      status = ''Booked'',
      createdAt = now e,
      returnedAt = d_returnedAt d,
      returnedBy = orEmpty (d_returnedBy d)\<rparr>"

text \<open>\<^verbatim>\<open>Array.prototype.findIndex\<close>; \<open>None\<close> is the result -1.\<close>

fun findIndex :: "('a \<Rightarrow> bool) \<Rightarrow> 'a list \<Rightarrow> nat option" where
  "findIndex P [] = None"
| "findIndex P (x # xs) = (if P x then Some 0 else map_option Suc (findIndex P xs))"

text \<open>
  What \<^verbatim>\<open>addOrUpdateRecord\<close> returns. The Update branch returns \<^verbatim>\<open>{ ...row, ...data }\<close>,
  an object with every field of the row, in which a date of the request is still the
  request's text. The Add branch returns \<^verbatim>\<open>{ ...data, id, createdAt, status }\<close>, which
  has the keys of the request and these three only.
\<close>

datatype returned = Updated booking | Added booking_data

definition updatedData :: "booking \<Rightarrow> booking_data \<Rightarrow> booking" where
  "updatedData row d = spread OtherCell row d"

definition addedRecord :: "env \<Rightarrow> booking_data \<Rightarrow> booking_data" where
  "addedRecord e d =
     d\<lparr>d_id := Some (uuid e), d_period := map_option readNumber (d_period d),
       d_createdAt := Some (now e), d_status := Some ''Booked''\<rparr>"

text \<open>
  \<^verbatim>\<open>addOrUpdateRecord('Bookings', data, id)\<close>. The parameter \<^verbatim>\<open>id\<close> defaults to null
  (\<open>None\<close>); \<^verbatim>\<open>if (id)\<close> holds for a non-empty string only. The branches on
  \<^verbatim>\<open>sheetName === 'Users'\<close> are not taken for this sheet. The result is the object
  returned, or the error thrown, with the spreadsheet left behind. The script lock taken
  around the body does not change what one execution computes and is not part of the
  state.
\<close>

definition addOrUpdateRecord_Bookings ::
  "(string \<Rightarrow> cell_date) \<Rightarrow> env \<Rightarrow> db \<Rightarrow> booking_data \<Rightarrow> string option \<Rightarrow> (error + returned) \<times> db" where
  "addOrUpdateRecord_Bookings toCell e s d idv =
     (case (case idv of Some i \<Rightarrow> if i \<noteq> [] then Some i else None | None \<Rightarrow> None) of
        Some i \<Rightarrow>
          (case findIndex (\<lambda>row. bid row = i) (Bookings s) of
             Some k \<Rightarrow>
               (Inr (Updated (updatedData (Bookings s ! k) d)),
                s\<lparr>Bookings := (Bookings s)[k := spread toCell (Bookings s ! k) d]\<rparr>)
           | None \<Rightarrow> (Inl (Error (''Record with ID '' @ i @ '' not found in Bookings.'')), s))
      | None \<Rightarrow>
          (Inr (Added (addedRecord e d)), s\<lparr>Bookings := Bookings s @ [newRecord toCell e d]\<rparr>))"

text \<open>\<^verbatim>\<open>deleteRecord('Bookings', id)\<close>; \<^verbatim>\<open>sheet.deleteRow\<close> removes the row found.\<close>

definition deleteRecord_Bookings :: "db \<Rightarrow> string \<Rightarrow> (error + unit) \<times> db" where
  "deleteRecord_Bookings s i =
     (case findIndex (\<lambda>row. bid row = i) (Bookings s) of
        Some k \<Rightarrow> (Inr (), s\<lparr>Bookings := take k (Bookings s) @ drop (Suc k) (Bookings s)\<rparr>)
      | None \<Rightarrow> (Inl (Error (''Record with ID '' @ i @ '' not found.'')), s))"

section \<open>Booking endpoints\<close>

text \<open>
  The predicate of \<^verbatim>\<open>allBookings.find\<close> in \<^verbatim>\<open>addBooking\<close>. \<open>formatDate\<close> is
  \<^verbatim>\<open>Utilities.formatDate(d, TIMEZONE, 'yyyy-MM-dd')\<close>, a service of the platform. A key the
  request lacks is undefined and equals no cell.
\<close>

definition conflicts :: "(int \<Rightarrow> string) \<Rightarrow> booking_data \<Rightarrow> booking \<Rightarrow> bool" where
  "conflicts formatDate d b =
     (case date b of
        OtherCell s \<Rightarrow> False
      | DateCell t \<Rightarrow>
          Some (formatDate t) = d_date d \<and> Some (classroom b) = d_classroom d
          \<and> Some (period b) = map_option readNumber (d_period d)
          \<and> status b \<notin> set [''Returned'', ''Not Used'', ''Cancelled''])"

definition addBooking ::
  "(int \<Rightarrow> string) \<Rightarrow> (string \<Rightarrow> cell_date) \<Rightarrow> env \<Rightarrow> db \<Rightarrow> booking_data \<Rightarrow> (error + returned) \<times> db" where
  "addBooking formatDate toCell e s d =
     (case find (conflicts formatDate d) (Bookings s) of
        Some conflict \<Rightarrow> (Inl (Error ''Booking conflict''), s)
      | None \<Rightarrow> addOrUpdateRecord_Bookings toCell e s d None)"

definition updateBooking ::
  "(string \<Rightarrow> cell_date) \<Rightarrow> env \<Rightarrow> db \<Rightarrow> string \<Rightarrow> booking_data \<Rightarrow> (error + returned) \<times> db" where
  "updateBooking toCell e s i d = addOrUpdateRecord_Bookings toCell e s d (Some i)"

definition deleteBooking :: "db \<Rightarrow> string \<Rightarrow> (error + unit) \<times> db" where
  "deleteBooking s i = deleteRecord_Bookings s i"

definition confirmReturn ::
  "(string \<Rightarrow> cell_date) \<Rightarrow> env \<Rightarrow> db \<Rightarrow> string \<Rightarrow> string \<Rightarrow> (error + returned) \<times> db" where
  "confirmReturn toCell e s bookingId adminName =
     addOrUpdateRecord_Bookings toCell e s
       (noData\<lparr>d_status := Some ''Returned'', d_returnedAt := Some (now e),
               d_returnedBy := Some adminName\<rparr>)
       (Some bookingId)"

definition cancelBooking ::
  "(string \<Rightarrow> cell_date) \<Rightarrow> env \<Rightarrow> db \<Rightarrow> string \<Rightarrow> string \<Rightarrow> (error + returned) \<times> db" where
  "cancelBooking toCell e s bookingId userIdv =
     (case find (\<lambda>b. bid b = bookingId) (Bookings s) of
        None \<Rightarrow> (Inl (Error ''Booking not found''), s)
      | Some b \<Rightarrow>
          if status b \<noteq> ''Booked''
          then (Inl (Error ''Cannot cancel a booking that is already in use or completed.''), s)
          else addOrUpdateRecord_Bookings toCell e s (noData\<lparr>d_status := Some ''Not Used''\<rparr>)
                 (Some bookingId))"

section \<open>Reading bookings and reports\<close>

text \<open>
  \<^verbatim>\<open>getBookingsWithStatus\<close>: the rows sorted by
  \<^verbatim>\<open>(a, b) => new Date(b.createdAt) - new Date(a.createdAt)\<close>, then the derived status.
  \<^verbatim>\<open>Array.prototype.sort\<close> is stable, and so is \<^const>\<open>sort_key\<close>.
\<close>

definition getBookingsWithStatus :: "int \<Rightarrow> int \<Rightarrow> db \<Rightarrow> booking list" where
  "getBookingsWithStatus off nowv s =
     calculateBookingStatus off nowv (sort_key (\<lambda>b. - createdAt b) (Bookings s))"

text \<open>The \<^verbatim>\<open>filters\<close> object of \<^verbatim>\<open>getReportData\<close>; \<open>None\<close> is an absent key.\<close>

record filters =
  startDate :: "string option"
  endDate :: "string option"
  f_program :: "string option"
  teacherId :: "string option"
  equipmentId :: "string option"

text \<open>
  \<^verbatim>\<open>new Date(b.date)\<close>: the same instant for a Date, and for a text what the parameter
  \<open>parseDate\<close> (the engine's \<^verbatim>\<open>new Date(string)\<close>) makes of it, \<open>None\<close> being the
  Invalid Date. A comparison with the Invalid Date is false.
\<close>

definition newDate :: "(string \<Rightarrow> int option) \<Rightarrow> cell_date \<Rightarrow> int option" where
  "newDate parseDate c = (case c of DateCell t \<Rightarrow> Some t | OtherCell s \<Rightarrow> parseDate s)"

definition truthyCell :: "cell_date \<Rightarrow> bool" where
  "truthyCell c = (case c of DateCell t \<Rightarrow> True | OtherCell s \<Rightarrow> s \<noteq> [])"

definition geDate :: "int option \<Rightarrow> int option \<Rightarrow> bool" where
  "geDate a b = (case a of Some x \<Rightarrow> (case b of Some y \<Rightarrow> x \<ge> y | None \<Rightarrow> False) | None \<Rightarrow> False)"

definition leDate :: "int option \<Rightarrow> int option \<Rightarrow> bool" where
  "leDate a b = (case a of Some x \<Rightarrow> (case b of Some y \<Rightarrow> x \<le> y | None \<Rightarrow> False) | None \<Rightarrow> False)"

text \<open>\<^verbatim>\<open>if (filters.k) data = data.filter(p)\<close>: the filter runs for a non-empty text only.\<close>

definition whenGiven :: "string option \<Rightarrow> (string \<Rightarrow> 'a \<Rightarrow> bool) \<Rightarrow> 'a list \<Rightarrow> 'a list" where
  "whenGiven k p data =
     (case k of Some v \<Rightarrow> if v \<noteq> [] then filter (p v) data else data | None \<Rightarrow> data)"

definition getReportData ::
  "(string \<Rightarrow> int option) \<Rightarrow> int \<Rightarrow> int \<Rightarrow> db \<Rightarrow> filters \<Rightarrow> booking list" where
  "getReportData parseDate off nowv s f =
     (let data = getBookingsWithStatus off nowv s;
          data = whenGiven (startDate f)
                   (\<lambda>v b. truthyCell (date b) \<and> geDate (newDate parseDate (date b)) (parseDate v)) data;
          data = whenGiven (endDate f)
                   (\<lambda>v b. truthyCell (date b) \<and> leDate (newDate parseDate (date b)) (parseDate v)) data;
          data = whenGiven (f_program f) (\<lambda>v b. program b = v) data;
          data = whenGiven (teacherId f) (\<lambda>v b. userId b = v) data;
          data = whenGiven (equipmentId f)
                   (\<lambda>v b. case equipment b of Some xs \<Rightarrow> v \<in> set xs | None \<Rightarrow> False) data
      in data)"

section \<open>Authentication\<close>

text \<open>
  \<^verbatim>\<open>hashPassword\<close> is \<^verbatim>\<open>Utilities.base64Encode(Utilities.computeDigest(SHA_256, password))\<close>,
  two services of the platform; the digest is the parameter \<open>hashPassword\<close> below.
\<close>

text \<open>
  A deployment of the script: the script properties that \<^verbatim>\<open>ensureDatabaseInitialized\<close>
  tests (\<^verbatim>\<open>DB_INITIALIZED\<close> is true and \<^verbatim>\<open>SPREADSHEET_ID\<close> is set) and the spreadsheet
  named \<^verbatim>\<open>SPREADSHEET_NAME\<close>, in which a sheet that does not exist yet has no rows.
\<close>

record deployment =
  DB_INITIALIZED :: bool
  spreadsheet :: db

text \<open>
  \<^verbatim>\<open>initializeDefaultData\<close>: a Users sheet with no row below its header receives the rows
  of \<^verbatim>\<open>initialUsers\<close>, each with its password hashed and its name cleaned
  (\<^verbatim>\<open>name.replace(/\s+/g, ' ').trim()\<close>). The table of 143 accounts in the source is the
  parameter \<open>initialUsers\<close>, the cleaning of a name the parameter \<open>clean\<close>.
\<close>

definition initializeDefaultData ::
  "(string \<Rightarrow> string) \<Rightarrow> (string \<Rightarrow> string) \<Rightarrow> user list \<Rightarrow> db \<Rightarrow> db" where
  "initializeDefaultData hashPassword clean initialUsers ss =
     (if Users ss = []
      then ss\<lparr>Users := map (\<lambda>u. u\<lparr>password := hashPassword (password u), uname := clean (uname u)\<rparr>)
                           initialUsers\<rparr>
      else ss)"

text \<open>
  \<^verbatim>\<open>ensureDatabaseInitialized\<close>: nothing on the fast path; otherwise the sheets and their
  headers are created where missing, the properties are set and the default data is
  written. \<^verbatim>\<open>getDB\<close> runs it and opens the spreadsheet. Failures of the platform (a lock
  that times out, a file that cannot be opened) are not modelled.
\<close>

definition ensureDatabaseInitialized ::
  "(string \<Rightarrow> string) \<Rightarrow> (string \<Rightarrow> string) \<Rightarrow> user list \<Rightarrow> deployment \<Rightarrow> deployment" where
  "ensureDatabaseInitialized hashPassword clean initialUsers dep =
     (if DB_INITIALIZED dep then dep
      else dep\<lparr>DB_INITIALIZED := True,
                spreadsheet := initializeDefaultData hashPassword clean initialUsers (spreadsheet dep)\<rparr>)"

definition getDB ::
  "(string \<Rightarrow> string) \<Rightarrow> (string \<Rightarrow> string) \<Rightarrow> user list \<Rightarrow> deployment \<Rightarrow> db \<times> deployment" where
  "getDB hashPassword clean initialUsers dep =
     (spreadsheet (ensureDatabaseInitialized hashPassword clean initialUsers dep),
      ensureDatabaseInitialized hashPassword clean initialUsers dep)"

text \<open>
  Every endpoint starts with \<^verbatim>\<open>getDB()\<close>. The booking endpoints and the report above are
  modelled on the spreadsheet it returns. \<^verbatim>\<open>authenticate\<close>, the first request a deployment
  receives, is modelled on the deployment, with the initialisation that \<^verbatim>\<open>getDB()\<close> may
  run; it returns its answer and the deployment it leaves behind.
\<close>

definition verifyPassword :: "(string \<Rightarrow> string) \<Rightarrow> string \<Rightarrow> string \<Rightarrow> bool" where
  "verifyPassword hashPassword pw hash = (hashPassword pw = hash)"

definition withoutPassword :: "user \<Rightarrow> userWithoutPassword" where
  "withoutPassword u = \<lparr>wp_id = uid u, wp_name = uname u, wp_username = username u, wp_role = role u\<rparr>"

definition authenticate ::
  "(string \<Rightarrow> string) \<Rightarrow> (string \<Rightarrow> string) \<Rightarrow> user list \<Rightarrow> deployment \<Rightarrow> string \<Rightarrow> string
     \<Rightarrow> userWithoutPassword option \<times> deployment" where
  "authenticate hashPassword clean initialUsers dep usernamev pw =
     (case getDB hashPassword clean initialUsers dep of
        (ss, dep') \<Rightarrow>
          (case find (\<lambda>u. username u = usernamev) (Users ss) of
             Some u \<Rightarrow>
               if verifyPassword hashPassword pw (password u) then (Some (withoutPassword u), dep')
               else (None, dep')
           | None \<Rightarrow> (None, dep')))"

section \<open>The front end's connection to the backend\<close>

text \<open>The browser's \<^verbatim>\<open>localStorage\<close>: \<^verbatim>\<open>getItem\<close> is application, \<open>None\<close> is null.\<close>

type_synonym localStorage = "string \<rightharpoonup> string"

definition serviceKey :: string where
  "serviceKey = ''https://script.google.com/macros/s/AKfycbwWPYD-ZtPi61mPOZtMPlJl-elP1tFIRVbrNtGRusqCIBE0bSRZt3BMd0NyL5Yf0OI8/exec''"

definition notConfigured :: error where
  "notConfigured = Error ''Google Apps Script URL is not configured. Please complete the setup.''"

text \<open>\<^verbatim>\<open>GoogleSheetService.getScriptUrl\<close>; \<^verbatim>\<open>!url\<close> holds for null and for the empty text.\<close>

definition getScriptUrl :: "localStorage \<Rightarrow> error + string" where
  "getScriptUrl ls =
     (case ls serviceKey of
        None \<Rightarrow> Inl notConfigured
      | Some url \<Rightarrow> if url = [] then Inl notConfigured else Inr url)"

text \<open>\<^verbatim>\<open>handleSaveUrl\<close> of the setup page, on the text typed into the form: what it
  leaves in the storage (the dialogs and the reload do not touch it).\<close>

definition handleSaveUrl :: "localStorage \<Rightarrow> string \<Rightarrow> localStorage" where
  "handleSaveUrl ls scriptUrl =
     (if scriptUrl \<noteq> [] \<and> prefix ''https://script.google.com/macros/s/'' scriptUrl
      then ls(''google_script_url'' \<mapsto> scriptUrl)
      else ls)"

text \<open>The test of \<^verbatim>\<open>App\<close> that ends the setup page: \<^verbatim>\<open>isUrlSet\<close>.\<close>

definition isUrlSet :: "localStorage \<Rightarrow> bool" where
  "isUrlSet ls = (case ls ''google_script_url'' of None \<Rightarrow> False | Some url \<Rightarrow> url \<noteq> [])"

text \<open>
  \<^verbatim>\<open>apiRequest\<close>: the URL is read first and its error rethrown; only then is the request
  sent. \<open>fetch\<close> stands for the network and the backend: given the URL, the action and
  the payload it yields the data or the error of the answer.
\<close>

definition apiRequest ::
  "localStorage \<Rightarrow> (string \<Rightarrow> string \<Rightarrow> 'p \<Rightarrow> error + 'r) \<Rightarrow> string \<Rightarrow> 'p \<Rightarrow> error + 'r" where
  "apiRequest ls fetch action payload =
     (case getScriptUrl ls of Inl e \<Rightarrow> Inl e | Inr url \<Rightarrow> fetch url action payload)"

text \<open>
  The public methods of \<^verbatim>\<open>GoogleSheetService\<close>. Each is one call of \<^verbatim>\<open>apiRequest\<close> with
  the action below; they differ in what they make of its outcome.
\<close>

datatype api_method =
    M_authenticate | M_getEquipment | M_getClassrooms | M_getAllClassrooms
  | M_addBooking | M_updateBooking | M_deleteBooking | M_cancelBooking
  | M_getBookingsWithStatus | M_getBookingsByDate | M_confirmReturn | M_getReportData
  | M_getUsers | M_addUser | M_updateUser | M_deleteUser
  | M_addClassroom | M_updateClassroom | M_deleteClassroom
  | M_addEquipment | M_updateEquipment | M_deleteEquipment

fun action :: "api_method \<Rightarrow> string" where
  "action M_authenticate = ''authenticate''"
| "action M_getEquipment = ''getEquipment''"
| "action M_getClassrooms = ''getClassroomsByProgram''"
| "action M_getAllClassrooms = ''getAllClassrooms''"
| "action M_addBooking = ''addBooking''"
| "action M_updateBooking = ''updateBooking''"
| "action M_deleteBooking = ''deleteBooking''"
| "action M_cancelBooking = ''cancelBooking''"
| "action M_getBookingsWithStatus = ''getBookingsWithStatus''"
| "action M_getBookingsByDate = ''getBookingsByDate''"
| "action M_confirmReturn = ''confirmReturn''"
| "action M_getReportData = ''getReportData''"
| "action M_getUsers = ''getUsers''"
| "action M_addUser = ''addUser''"
| "action M_updateUser = ''updateUser''"
| "action M_deleteUser = ''deleteUser''"
| "action M_addClassroom = ''addClassroom''"
| "action M_updateClassroom = ''updateClassroom''"
| "action M_deleteClassroom = ''deleteClassroom''"
| "action M_addEquipment = ''addEquipment''"
| "action M_updateEquipment = ''updateEquipment''"
| "action M_deleteEquipment = ''deleteEquipment''"

text \<open>
  What a method's promise settles to: rejected with an error, resolved with the data of
  the answer, or resolved with \<^verbatim>\<open>{ success, message }\<close>.
\<close>

datatype 'r outcome = Rejected error | Resolved 'r | Success bool "string option"

text \<open>The methods that catch the error and resolve with \<^verbatim>\<open>{ success: false }\<close>.\<close>

definition catches :: "api_method \<Rightarrow> bool" where
  "catches m = (m \<in> set [M_addBooking, M_updateBooking, M_deleteBooking, M_cancelBooking])"

text \<open>The methods that await the request and then resolve with \<^verbatim>\<open>{ success: true }\<close>.\<close>

definition confirms :: "api_method \<Rightarrow> bool" where
  "confirms m = (m \<in> set [M_deleteUser, M_deleteClassroom, M_deleteEquipment])"

definition serviceCall ::
  "localStorage \<Rightarrow> (string \<Rightarrow> string \<Rightarrow> 'p \<Rightarrow> error + 'r) \<Rightarrow> api_method \<Rightarrow> 'p \<Rightarrow> 'r outcome" where
  "serviceCall ls fetch m payload =
     (case apiRequest ls fetch (action m) payload of
        Inl e \<Rightarrow>
          if catches m
          then Success False (if m = M_cancelBooking then (case e of Error msg \<Rightarrow> Some msg) else None)
          else Rejected e
      | Inr r \<Rightarrow>
          if catches m \<or> confirms m then Success True None else Resolved r)"

section \<open>The invariant of the Bookings sheet\<close>

text \<open>A booking is active while its status is none of Returned, Not Used, Cancelled; the
  sheet is sound when no two active rows share classroom, date and period.\<close>

definition active :: "booking \<Rightarrow> bool" where
  "active b = (status b \<notin> set [''Returned'', ''Not Used'', ''Cancelled''])"

definition slot :: "booking \<Rightarrow> string \<times> cell_date \<times> int" where
  "slot b = (classroom b, date b, period b)"

definition atMostOneActive :: "booking list \<Rightarrow> bool" where
  "atMostOneActive rows = distinct (map slot (filter active rows))"

section \<open>A sample platform and sample data\<close>

text \<open>
  The services of the platform are parameters of the model, and the general theorems
  below hold for every behaviour of them. To run the model on concrete inputs, this
  section fixes the platform the source names: dates formatted as yyyy-MM-dd in
  \<^verbatim>\<open>TIMEZONE\<close>, which is Asia/Bangkok (UTC+7, no daylight saving), a date column that
  turns a text of that form into the Date of its midnight in that zone and keeps any other
  text, \<^verbatim>\<open>new Date('yyyy-MM-dd')\<close> as midnight UTC (the language's rule for a date
  without a time), and a digest kept symbolic.
\<close>

definition bangkok :: int where
  "bangkok = 25200000"

definition civil :: "int \<Rightarrow> int \<times> int \<times> int" where
  "civil days =
     (let z = days + 719468;
          era = z div 146097;
          doe = z mod 146097;
          yoe = (doe - doe div 1460 + doe div 36524 - doe div 146096) div 365;
          doy = doe - (365 * yoe + yoe div 4 - yoe div 100);
          mp = (5 * doy + 2) div 153;
          d = doy - (153 * mp + 2) div 5 + 1;
          m = (if mp < 10 then mp + 3 else mp - 9);
          y = yoe + era * 400 + (if m \<le> 2 then 1 else 0)
      in (y, m, d))"

definition days_from_civil :: "int \<Rightarrow> int \<Rightarrow> int \<Rightarrow> int" where
  "days_from_civil y0 m d =
     (let y = (if m \<le> 2 then y0 - 1 else y0);
          era = y div 400;
          yoe = y mod 400;
          doy = (153 * (if m > 2 then m - 3 else m + 9) + 2) div 5 + d - 1;
          doe = yoe * 365 + yoe div 4 - yoe div 100 + doy
      in era * 146097 + doe - 719468)"

fun digits :: "nat \<Rightarrow> int \<Rightarrow> string" where
  "digits 0 n = []"
| "digits (Suc k) n = digits k (n div 10) @ [''0123456789'' ! nat (n mod 10)]"

fun number :: "string \<Rightarrow> int option" where
  "number [] = Some 0"
| "number (c # cs) =
     (case (findIndex (\<lambda>x. x = c) ''0123456789'', number cs) of
        (Some v, Some n) \<Rightarrow> Some (int v * 10 ^ length cs + n)
      | _ \<Rightarrow> None)"

definition sampleFormatDate :: "int \<Rightarrow> string" where
  "sampleFormatDate t =
     (case civil ((t + bangkok) div 86400000) of
        (y, m, d) \<Rightarrow> digits 4 y @ ''-'' @ digits 2 m @ ''-'' @ digits 2 d)"

text \<open>Year, month and day of a text of the form yyyy-MM-dd, or yyyy/MM/dd for the
  separator \<open>CHR ''/''\<close>.\<close>

definition ymd :: "char \<Rightarrow> string \<Rightarrow> (int \<times> int \<times> int) option" where
  "ymd sep s =
     (if length s = 10 \<and> s ! 4 = sep \<and> s ! 7 = sep
      then (case (number (take 4 s), number (take 2 (drop 5 s)), number (drop 8 s)) of
              (Some y, Some m, Some d) \<Rightarrow> Some (y, m, d)
            | _ \<Rightarrow> None)
      else None)"

text \<open>The date column: a yyyy-MM-dd text that names a day of the calendar becomes the
  Date of that day's midnight in Bangkok; any other text stays text.\<close>

definition sampleToCell :: "string \<Rightarrow> cell_date" where
  "sampleToCell s =
     (case ymd CHR ''-'' s of
        Some (y, m, d) \<Rightarrow>
          if civil (days_from_civil y m d) = (y, m, d)
          then DateCell (days_from_civil y m d * 86400000 - bangkok)
          else OtherCell s
      | None \<Rightarrow> OtherCell s)"

text \<open>
  \<^verbatim>\<open>new Date(text)\<close> of the engine, for the two forms of a date without a time: with
  dashes it is midnight UTC, with slashes midnight on the script's clock; a day up to 31
  that the month does not have runs over into the next month. Texts of other forms, which
  the engine reads by rules of its own, are outside this sample and read as the Invalid
  Date.
\<close>

definition sampleParseDate :: "string \<Rightarrow> int option" where
  "sampleParseDate s =
     (case ymd CHR ''-'' s of
        Some (y, m, d) \<Rightarrow>
          if 1 \<le> m \<and> m \<le> 12 \<and> 1 \<le> d \<and> d \<le> 31
          then Some (days_from_civil y m d * 86400000) else None
      | None \<Rightarrow>
          (case ymd CHR ''/'' s of
             Some (y, m, d) \<Rightarrow>
               if 1 \<le> m \<and> m \<le> 12 \<and> 1 \<le> d \<and> d \<le> 31
               then Some (days_from_civil y m d * 86400000 - bangkok) else None
           | None \<Rightarrow> None))"

definition sampleHash :: "string \<Rightarrow> string" where
  "sampleHash pw = ''sha256:'' @ pw"

definition sampleBooking :: booking where
  "sampleBooking =
     \<lparr>bid = ''b-1'', userId = ''u-98'', btype = ''Booking'', teacherName = ''Kru A'',
      program = ''Thai Programme'', classroom = ''c-101'', period = 2,
      date = DateCell 1705251600000, equipment = Some [''eq-1'', ''eq-2''],
      learningPlan = ''Plan 1'', status = ''Booked'', createdAt = 1705000000000,
      returnedAt = None, returnedBy = []\<rparr>"

definition sampleUser :: user where
  "sampleUser = \<lparr>uid = ''u-98'', uname = ''Kru A'', username = ''krua'',
     password = sampleHash ''secret'', role = ''teacher''\<rparr>"

definition sampleDb :: db where
  "sampleDb = \<lparr>Users = [sampleUser], Bookings = [sampleBooking], Classrooms = [], Equipment = []\<rparr>"

text \<open>09:40 on 15 January 2024 in Bangkok, and the UUID the platform hands out next.\<close>

definition sampleEnv :: env where
  "sampleEnv = \<lparr>now = 1705286400000, uuid = ''b-2''\<rparr>"

text \<open>\<^verbatim>\<open>name.replace(/\s+/g, ' ').trim()\<close> on ASCII text: the words of the name, one
  space between them.\<close>

fun wordsOf :: "string \<Rightarrow> string list" where
  "wordsOf [] = [[]]"
| "wordsOf (c # cs) =
     (if c \<in> set [CHR '' '', CHR 0x09, CHR 0x0A, CHR 0x0B, CHR 0x0C, CHR 0x0D]
      then [] # wordsOf cs
      else (case wordsOf cs of w # ws \<Rightarrow> (c # w) # ws | [] \<Rightarrow> [[c]]))"

fun joinWords :: "string list \<Rightarrow> string" where
  "joinWords [] = []"
| "joinWords [w] = w"
| "joinWords (w # v # ws) = w @ '' '' @ joinWords (v # ws)"

definition sampleClean :: "string \<Rightarrow> string" where
  "sampleClean name = joinWords (filter (\<lambda>w. w \<noteq> []) (wordsOf name))"

text \<open>An initialised deployment with two accounts that share a user name; the second
  one's password is ``other''.\<close>

definition duplicateUsers :: deployment where
  "duplicateUsers = \<lparr>DB_INITIALIZED = True, spreadsheet = sampleDb\<lparr>Users :=
     [sampleUser, sampleUser\<lparr>uid := ''u-99'', password := sampleHash ''other''\<rparr>]\<rparr>\<rparr>"

text \<open>A deployment before its first request, and the first two accounts of the source's
  table (their names, which are not ASCII, left empty).\<close>

definition freshDeployment :: deployment where
  "freshDeployment = \<lparr>DB_INITIALIZED = False,
     spreadsheet = \<lparr>Users = [], Bookings = [], Classrooms = [], Equipment = []\<rparr>\<rparr>"

definition sampleInitialUsers :: "user list" where
  "sampleInitialUsers =
     [\<lparr>uid = ''1'', uname = [], username = ''admin'', password = ''admin1234'', role = ''admin''\<rparr>,
      \<lparr>uid = ''2'', uname = [], username = ''A0941799831'', password = ''A0941799831'',
        role = ''teacher''\<rparr>]"


text \<open>Two active bookings of the same period and day in different classrooms, and the
  payload the booking form sends when the second one is edited into the first one's
  classroom.\<close>

definition twoBookingsDb :: db where
  "twoBookingsDb = sampleDb\<lparr>Bookings :=
     [sampleBooking, sampleBooking\<lparr>bid := ''b-3'', classroom := ''c-102'', learningPlan := ''Plan 2''\<rparr>]\<rparr>"

definition editPayload :: booking_data where
  "editPayload = noData\<lparr>d_userId := Some ''u-98'', d_type := Some ''Booking'',
     d_teacherName := Some ''Kru A'', d_program := Some ''Thai Programme'',
     d_classroom := Some ''c-101'', d_period := Some 2, d_date := Some ''2024-01-15'',
     d_equipment := Some [''eq-1'', ''eq-2''], d_learningPlan := Some ''Plan 2''\<rparr>"

text \<open>A sheet whose only row has an empty id cell, and the row the Add branch writes for
  a request that carries no booking field but \<^verbatim>\<open>returnedBy\<close> and \<^verbatim>\<open>returnedAt\<close>, with the
  object it returns.\<close>

definition emptyIdDb :: db where
  "emptyIdDb = sampleDb\<lparr>Bookings := [sampleBooking\<lparr>bid := []\<rparr>]\<rparr>"

definition phantom :: "string \<Rightarrow> int option \<Rightarrow> booking" where
  "phantom who stamp =
     \<lparr>bid = ''b-2'', userId = [], btype = [], teacherName = [], program = [], classroom = [],
      period = 0, date = OtherCell [], equipment = None, learningPlan = [], status = ''Booked'',
      createdAt = 1705286400000, returnedAt = stamp, returnedBy = who\<rparr>"

definition phantomRecord :: "string option \<Rightarrow> int option \<Rightarrow> booking_data" where
  "phantomRecord who stamp =
     noData\<lparr>d_id := Some ''b-2'', d_status := Some ''Booked'', d_createdAt := Some 1705286400000,
       d_returnedAt := stamp, d_returnedBy := who\<rparr>"

definition noFilters :: filters where
  "noFilters = \<lparr>startDate = None, endDate = None, f_program = None, teacherId = None,
     equipmentId = None\<rparr>"

section \<open>Derived status: the windows and the sticky statuses\<close>

lemma localDate_midnight: "localDate off d hm = midnight off d + (fst hm * 60 + snd hm) * 60000"
  by (simp add: localDate_def midnight_def)

lemma periodTimes_window:
  assumes "1 \<le> p" and "p \<le> 6"
  shows "\<exists>pi. periodTimes p = Some pi
       \<and> fst (fst pi) * 60 + snd (fst pi) = fst (spec_window p)
       \<and> fst (snd pi) * 60 + snd (snd pi) = snd (spec_window p)"
proof -
  from assms have "p = 1 \<or> p = 2 \<or> p = 3 \<or> p = 4 \<or> p = 5 \<or> p = 6" by arith
  then show ?thesis
    by (elim disjE) (simp_all add: periodTimes_def spec_window_def)
qed

lemma periodTimes_outside: "p < 1 \<or> 6 < p \<Longrightarrow> periodTimes p = None"
  by (auto simp: periodTimes_def)

text \<open>
  Claim C2. Let \<open>b\<close> be a booking handed to \<^verbatim>\<open>calculateBookingStatus\<close>. If its stored
  status is none of Returned, Not Used, Cancelled, its date cell is a Date \<open>d\<close> and its
  period is between 1 and 6, the result is \<open>b\<close> with the status set from the current
  instant: In Use from the start of the period's window to its end (both included), Pending
  Return after the end, Booked before the start, the window being the one the
  specification lists, on the calendar day of \<open>d\<close>. If the period is outside 1..6 or the
  date cell is not a Date, the booking is returned unchanged.
\<close>

theorem calculateBookingStatus_windows:
  assumes "i < length bookings" and "b = bookings ! i"
  shows "(status b \<notin> {''Returned'', ''Not Used'', ''Cancelled''} \<and> date b = DateCell d
            \<and> 1 \<le> period b \<and> period b \<le> 6 \<longrightarrow>
          calculateBookingStatus off nowv bookings ! i =
            b\<lparr>status :=
               (if midnight off d + fst (spec_window (period b)) * 60000 \<le> nowv
                   \<and> nowv \<le> midnight off d + snd (spec_window (period b)) * 60000
                then ''In Use''
                else if midnight off d + snd (spec_window (period b)) * 60000 < nowv
                then ''Pending Return''
                else ''Booked'')\<rparr>)
       \<and> (period b < 1 \<or> 6 < period b \<or> (\<exists>s. date b = OtherCell s) \<longrightarrow>
          calculateBookingStatus off nowv bookings ! i = b)"
proof (intro conjI impI)
  assume h: "status b \<notin> {''Returned'', ''Not Used'', ''Cancelled''} \<and> date b = DateCell d
            \<and> 1 \<le> period b \<and> period b \<le> 6"
  then obtain pi where pi: "periodTimes (period b) = Some pi"
      "fst (fst pi) * 60 + snd (fst pi) = fst (spec_window (period b))"
      "fst (snd pi) * 60 + snd (snd pi) = snd (spec_window (period b))"
    using periodTimes_window by blast
  from h have st: "status b \<notin> set [''Returned'', ''Not Used'', ''Cancelled'']" by simp
  have "calculateBookingStatus_row off nowv b =
      b\<lparr>status :=
               (if midnight off d + fst (spec_window (period b)) * 60000 \<le> nowv
                   \<and> nowv \<le> midnight off d + snd (spec_window (period b)) * 60000
                then ''In Use''
                else if midnight off d + snd (spec_window (period b)) * 60000 < nowv
                then ''Pending Return''
                else ''Booked'')\<rparr>"
    unfolding calculateBookingStatus_row_def using st h pi
    by (simp add: localDate_midnight Let_def del: set_simps)
  with assms show "calculateBookingStatus off nowv bookings ! i =
      b\<lparr>status :=
               (if midnight off d + fst (spec_window (period b)) * 60000 \<le> nowv
                   \<and> nowv \<le> midnight off d + snd (spec_window (period b)) * 60000
                then ''In Use''
                else if midnight off d + snd (spec_window (period b)) * 60000 < nowv
                then ''Pending Return''
                else ''Booked'')\<rparr>"
    by (simp add: calculateBookingStatus_def)
next
  assume h: "period b < 1 \<or> 6 < period b \<or> (\<exists>s. date b = OtherCell s)"
  have "calculateBookingStatus_row off nowv b = b"
  proof (cases "\<exists>s. date b = OtherCell s")
    case True
    then show ?thesis by (auto simp: calculateBookingStatus_row_def)
  next
    case False
    with h have "periodTimes (period b) = None" using periodTimes_outside by blast
    then show ?thesis by (simp add: calculateBookingStatus_row_def split: cell_date.splits)
  qed
  with assms show "calculateBookingStatus off nowv bookings ! i = b"
    by (simp add: calculateBookingStatus_def)
qed

theorem calculateBookingStatus_windows_witness:
  "calculateBookingStatus bangkok (now sampleEnv) [sampleBooking] ! 0 = sampleBooking\<lparr>status := ''In Use''\<rparr>
   \<and> calculateBookingStatus bangkok (now sampleEnv) [sampleBooking\<lparr>period := 7\<rparr>] ! 0 = sampleBooking\<lparr>period := 7\<rparr>"
proof -
  have a: "(0::nat) < length [sampleBooking]" by simp
  have m: "midnight bangkok 1705251600000 = 1705251600000"
    by (simp add: midnight_def bangkok_def)
  have 1: "calculateBookingStatus bangkok (now sampleEnv) [sampleBooking] ! 0 = sampleBooking\<lparr>status := ''In Use''\<rparr>"
    using calculateBookingStatus_windows [OF a, of sampleBooking 1705251600000 bangkok "now sampleEnv"]
    by (simp add: sampleBooking_def sampleEnv_def m spec_window_def)
  have b: "(0::nat) < length [sampleBooking\<lparr>period := 7\<rparr>]" by simp
  have 2: "calculateBookingStatus bangkok (now sampleEnv) [sampleBooking\<lparr>period := 7\<rparr>] ! 0 = sampleBooking\<lparr>period := 7\<rparr>"
    using calculateBookingStatus_windows [OF b, of "sampleBooking\<lparr>period := 7\<rparr>" 0 bangkok "now sampleEnv"]
    by (simp add: sampleBooking_def)
  from 1 2 show ?thesis by simp
qed

text \<open>
  Claim C4. A booking whose stored status is Returned or Not Used comes back from
  \<^verbatim>\<open>calculateBookingStatus\<close> unchanged in every field, whatever the current instant, the
  time zone, its date cell and its period.
\<close>

theorem calculateBookingStatus_terminal:
  assumes "i < length bookings"
    and "status (bookings ! i) = ''Returned'' \<or> status (bookings ! i) = ''Not Used''"
  shows "length (calculateBookingStatus off nowv bookings) = length bookings
       \<and> calculateBookingStatus off nowv bookings ! i = bookings ! i"
  using assms by (auto simp: calculateBookingStatus_def calculateBookingStatus_row_def)

theorem calculateBookingStatus_terminal_witness:
  "status ([sampleBooking\<lparr>status := ''Returned''\<rparr>] ! 0) = ''Returned''
   \<and> calculateBookingStatus bangkok (now sampleEnv) [sampleBooking\<lparr>status := ''Returned''\<rparr>] ! 0
       = sampleBooking\<lparr>status := ''Returned''\<rparr>"
  using calculateBookingStatus_terminal [of 0 "[sampleBooking\<lparr>status := ''Returned''\<rparr>]" bangkok "now sampleEnv"]
  by simp

section \<open>Adding a booking\<close>

lemma sampleFormatDate_15: "sampleFormatDate 1705251600000 = ''2024-01-15''"
  by code_simp

lemma sampleToCell_15: "sampleToCell ''2024-01-15'' = DateCell 1705251600000"
  by code_simp

lemma readNumber_small: "\<bar>n\<bar> < 2 ^ 53 \<Longrightarrow> readNumber n = n"
  by (simp add: readNumber_def)

lemma readNumber_rounds: "readNumber (2 ^ 53 + 1) = 2 ^ 53"
  by code_simp




section \<open>Authentication\<close>

lemma getDB_initialized:
  "DB_INITIALIZED dep \<Longrightarrow> getDB hashPassword clean initialUsers dep = (spreadsheet dep, dep)"
  by (simp add: getDB_def ensureDatabaseInitialized_def)

lemma getDB_first_request:
  "\<not> DB_INITIALIZED dep \<Longrightarrow> Users (spreadsheet dep) = [] \<Longrightarrow>
     Users (fst (getDB hashPassword clean initialUsers dep)) =
       map (\<lambda>r. r\<lparr>password := hashPassword (password r), uname := clean (uname r)\<rparr>) initialUsers"
  by (simp add: getDB_def ensureDatabaseInitialized_def initializeDefaultData_def)

lemma authenticate_deployment:
  "snd (authenticate hashPassword clean initialUsers dep u pw) =
     snd (getDB hashPassword clean initialUsers dep)"
  by (simp add: authenticate_def split: prod.splits option.splits)

text \<open>
  Claim C5 as the specification words it fails in two ways. When two rows share a user
  name, the second account's password matches the second row and \<^verbatim>\<open>authenticate\<close> still
  returns null, because \<^verbatim>\<open>users.find\<close> stops at the first row with that user name (of the
  digest, only that the two passwords have different ones is used). And the first request
  of a deployment does modify the Users sheet: \<^verbatim>\<open>getDB()\<close> initialises the spreadsheet
  and writes the default accounts into the empty sheet before the user is looked up.
\<close>

theorem authenticate_some_row_counterexample:
  "fst (authenticate sampleHash sampleClean sampleInitialUsers duplicateUsers ''krua'' ''other'') = None
   \<and> username (Users (spreadsheet duplicateUsers) ! 1) = ''krua''
   \<and> sampleHash ''other'' = password (Users (spreadsheet duplicateUsers) ! 1)
   \<and> Users (spreadsheet freshDeployment) = []
   \<and> length (Users (spreadsheet (snd (authenticate sampleHash sampleClean sampleInitialUsers
        freshDeployment ''admin'' ''admin1234'')))) = 2"
  by (simp add: authenticate_def getDB_def ensureDatabaseInitialized_def
      initializeDefaultData_def verifyPassword_def duplicateUsers_def freshDeployment_def
      sampleInitialUsers_def sampleDb_def sampleUser_def sampleHash_def)

text \<open>
  Claim C5, amended. \<^verbatim>\<open>authenticate\<close> returns the user record without its password
  exactly when the first row with that user name, in the Users sheet of the spreadsheet
  that \<^verbatim>\<open>getDB()\<close> returns, stores the hash of the supplied password, and it is that
  row's record; in every other case it returns null (an option that is not \<open>Some w\<close> for
  any \<open>w\<close>). On a deployment that has been initialised it modifies nothing, the Users
  sheet included. On a deployment that has not, with an empty Users sheet, it leaves the
  accounts of \<^verbatim>\<open>initialUsers\<close> in the sheet, their passwords hashed, and the lookup is
  made among them. This holds for every digest function.
\<close>

theorem authenticate_first_match:
  "(DB_INITIALIZED dep \<longrightarrow>
      snd (authenticate hashPassword clean initialUsers dep u pw) = dep)
   \<and> (\<not> DB_INITIALIZED dep \<and> Users (spreadsheet dep) = [] \<longrightarrow>
      Users (spreadsheet (snd (authenticate hashPassword clean initialUsers dep u pw))) =
        map (\<lambda>r. r\<lparr>password := hashPassword (password r), uname := clean (uname r)\<rparr>)
          initialUsers)
   \<and> (fst (authenticate hashPassword clean initialUsers dep u pw) = Some w \<longleftrightarrow>
        (\<exists>k < length (Users (fst (getDB hashPassword clean initialUsers dep))).
           username (Users (fst (getDB hashPassword clean initialUsers dep)) ! k) = u
           \<and> (\<forall>j < k. username (Users (fst (getDB hashPassword clean initialUsers dep)) ! j) \<noteq> u)
           \<and> hashPassword pw = password (Users (fst (getDB hashPassword clean initialUsers dep)) ! k)
           \<and> w = withoutPassword (Users (fst (getDB hashPassword clean initialUsers dep)) ! k)))"
proof (intro conjI impI)
  assume "DB_INITIALIZED dep"
  then show "snd (authenticate hashPassword clean initialUsers dep u pw) = dep"
    by (simp add: authenticate_deployment getDB_initialized)
next
  assume "\<not> DB_INITIALIZED dep \<and> Users (spreadsheet dep) = []"
  then have "Users (fst (getDB hashPassword clean initialUsers dep)) =
      map (\<lambda>r. r\<lparr>password := hashPassword (password r), uname := clean (uname r)\<rparr>) initialUsers"
    by (simp add: getDB_first_request)
  then show "Users (spreadsheet (snd (authenticate hashPassword clean initialUsers dep u pw))) =
      map (\<lambda>r. r\<lparr>password := hashPassword (password r), uname := clean (uname r)\<rparr>) initialUsers"
    by (simp add: authenticate_deployment getDB_def)
next
  define us where "us = Users (fst (getDB hashPassword clean initialUsers dep))"
  have a: "fst (authenticate hashPassword clean initialUsers dep u pw) =
      (case find (\<lambda>r. username r = u) us of
         Some r \<Rightarrow> if hashPassword pw = password r then Some (withoutPassword r) else None
       | None \<Rightarrow> None)"
    by (simp add: authenticate_def us_def verifyPassword_def split: prod.splits option.splits)
  have "fst (authenticate hashPassword clean initialUsers dep u pw) = Some w \<longleftrightarrow>
        (\<exists>k < length us. username (us ! k) = u \<and> (\<forall>j < k. username (us ! j) \<noteq> u)
           \<and> hashPassword pw = password (us ! k) \<and> w = withoutPassword (us ! k))"
  proof (cases "find (\<lambda>r. username r = u) us")
    case None
    then have "\<forall>k < length us. username (us ! k) \<noteq> u"
      by (auto simp: find_None_iff)
    with None a show ?thesis by auto
  next
    case (Some r)
    then obtain i where i: "i < length us" "username (us ! i) = u" "r = us ! i"
        "\<forall>j < i. username (us ! j) \<noteq> u"
      by (auto simp: find_Some_iff)
    have uniq: "k = i" if "k < length us" "username (us ! k) = u"
        "\<forall>j < k. username (us ! j) \<noteq> u" for k
    proof (rule ccontr)
      assume "k \<noteq> i"
      then consider "k < i" | "i < k" by linarith
      then show False using that i by cases auto
    qed
    show ?thesis
    proof
      assume "fst (authenticate hashPassword clean initialUsers dep u pw) = Some w"
      then have "hashPassword pw = password r \<and> w = withoutPassword r"
        using Some a by (auto split: if_splits)
      with i show "\<exists>k < length us. username (us ! k) = u \<and> (\<forall>j < k. username (us ! j) \<noteq> u)
           \<and> hashPassword pw = password (us ! k) \<and> w = withoutPassword (us ! k)" by blast
    next
      assume "\<exists>k < length us. username (us ! k) = u \<and> (\<forall>j < k. username (us ! j) \<noteq> u)
           \<and> hashPassword pw = password (us ! k) \<and> w = withoutPassword (us ! k)"
      then obtain k where k: "k < length us" "username (us ! k) = u"
          "\<forall>j < k. username (us ! j) \<noteq> u" "hashPassword pw = password (us ! k)"
          "w = withoutPassword (us ! k)" by blast
      then have "k = i" using uniq by blast
      with k i Some a show "fst (authenticate hashPassword clean initialUsers dep u pw) = Some w"
        by simp
    qed
  qed
  then show "fst (authenticate hashPassword clean initialUsers dep u pw) = Some w \<longleftrightarrow>
        (\<exists>k < length (Users (fst (getDB hashPassword clean initialUsers dep))).
           username (Users (fst (getDB hashPassword clean initialUsers dep)) ! k) = u
           \<and> (\<forall>j < k. username (Users (fst (getDB hashPassword clean initialUsers dep)) ! j) \<noteq> u)
           \<and> hashPassword pw = password (Users (fst (getDB hashPassword clean initialUsers dep)) ! k)
           \<and> w = withoutPassword (Users (fst (getDB hashPassword clean initialUsers dep)) ! k))"
    by (simp only: us_def)
qed

theorem authenticate_first_match_witness:
  "DB_INITIALIZED duplicateUsers
   \<and> authenticate sampleHash sampleClean sampleInitialUsers duplicateUsers ''krua'' ''secret''
       = (Some (withoutPassword sampleUser), duplicateUsers)
   \<and> fst (authenticate sampleHash sampleClean sampleInitialUsers duplicateUsers ''krua'' ''other'')
       \<noteq> Some (withoutPassword (Users (spreadsheet duplicateUsers) ! 1))
   \<and> \<not> DB_INITIALIZED freshDeployment \<and> Users (spreadsheet freshDeployment) = []
   \<and> Users (spreadsheet (snd (authenticate sampleHash sampleClean sampleInitialUsers
        freshDeployment ''admin'' ''admin1234''))) =
       [\<lparr>uid = ''1'', uname = [], username = ''admin'', password = sampleHash ''admin1234'',
          role = ''admin''\<rparr>,
        \<lparr>uid = ''2'', uname = [], username = ''A0941799831'',
          password = sampleHash ''A0941799831'', role = ''teacher''\<rparr>]
   \<and> fst (authenticate sampleHash sampleClean sampleInitialUsers freshDeployment
        ''admin'' ''admin1234'') =
       Some \<lparr>wp_id = ''1'', wp_name = [], wp_username = ''admin'', wp_role = ''admin''\<rparr>"
proof -
  let ?auth = "authenticate sampleHash sampleClean sampleInitialUsers"
  let ?admin = "\<lparr>wp_id = ''1'', wp_name = [], wp_username = ''admin'', wp_role = ''admin''\<rparr>"
  have i: "DB_INITIALIZED duplicateUsers" by (simp add: duplicateUsers_def)
  have us: "Users (fst (getDB sampleHash sampleClean sampleInitialUsers duplicateUsers)) =
      [sampleUser, sampleUser\<lparr>uid := ''u-99'', password := sampleHash ''other''\<rparr>]"
    by (simp add: getDB_initialized [OF i]) (simp add: duplicateUsers_def)
  have us1: "Users (spreadsheet duplicateUsers) ! 1 =
      sampleUser\<lparr>uid := ''u-99'', password := sampleHash ''other''\<rparr>"
    by (simp add: duplicateUsers_def)
  have krua: "username sampleUser = ''krua''" "password sampleUser = sampleHash ''secret''"
    by (simp_all add: sampleUser_def)
  note t1 = authenticate_first_match [of duplicateUsers sampleHash sampleClean sampleInitialUsers
        "''krua''" "''secret''" "withoutPassword sampleUser"]
  have "\<exists>k < length [sampleUser, sampleUser\<lparr>uid := ''u-99'', password := sampleHash ''other''\<rparr>].
      username ([sampleUser, sampleUser\<lparr>uid := ''u-99'', password := sampleHash ''other''\<rparr>] ! k) = ''krua''
      \<and> (\<forall>j < k. username ([sampleUser, sampleUser\<lparr>uid := ''u-99'', password := sampleHash ''other''\<rparr>] ! j) \<noteq> ''krua'')
      \<and> sampleHash ''secret'' = password ([sampleUser, sampleUser\<lparr>uid := ''u-99'', password := sampleHash ''other''\<rparr>] ! k)
      \<and> withoutPassword sampleUser = withoutPassword ([sampleUser, sampleUser\<lparr>uid := ''u-99'', password := sampleHash ''other''\<rparr>] ! k)"
    by (rule exI [of _ 0]) (simp add: krua)
  then have 1: "fst (?auth duplicateUsers ''krua'' ''secret'') = Some (withoutPassword sampleUser)"
    using t1 [THEN conjunct2, THEN conjunct2] by (simp only: us)
  have 2: "snd (?auth duplicateUsers ''krua'' ''secret'') = duplicateUsers"
    using i t1 [THEN conjunct1] by simp
  note t3 = authenticate_first_match [of duplicateUsers sampleHash sampleClean sampleInitialUsers
        "''krua''" "''other''" "withoutPassword (sampleUser\<lparr>uid := ''u-99'', password := sampleHash ''other''\<rparr>)"]
  have "\<not> (\<exists>k < length [sampleUser, sampleUser\<lparr>uid := ''u-99'', password := sampleHash ''other''\<rparr>].
      username ([sampleUser, sampleUser\<lparr>uid := ''u-99'', password := sampleHash ''other''\<rparr>] ! k) = ''krua''
      \<and> (\<forall>j < k. username ([sampleUser, sampleUser\<lparr>uid := ''u-99'', password := sampleHash ''other''\<rparr>] ! j) \<noteq> ''krua'')
      \<and> sampleHash ''other'' = password ([sampleUser, sampleUser\<lparr>uid := ''u-99'', password := sampleHash ''other''\<rparr>] ! k)
      \<and> withoutPassword (sampleUser\<lparr>uid := ''u-99'', password := sampleHash ''other''\<rparr>)
          = withoutPassword ([sampleUser, sampleUser\<lparr>uid := ''u-99'', password := sampleHash ''other''\<rparr>] ! k))"
  proof
    assume "\<exists>k < length [sampleUser, sampleUser\<lparr>uid := ''u-99'', password := sampleHash ''other''\<rparr>].
      username ([sampleUser, sampleUser\<lparr>uid := ''u-99'', password := sampleHash ''other''\<rparr>] ! k) = ''krua''
      \<and> (\<forall>j < k. username ([sampleUser, sampleUser\<lparr>uid := ''u-99'', password := sampleHash ''other''\<rparr>] ! j) \<noteq> ''krua'')
      \<and> sampleHash ''other'' = password ([sampleUser, sampleUser\<lparr>uid := ''u-99'', password := sampleHash ''other''\<rparr>] ! k)
      \<and> withoutPassword (sampleUser\<lparr>uid := ''u-99'', password := sampleHash ''other''\<rparr>)
          = withoutPassword ([sampleUser, sampleUser\<lparr>uid := ''u-99'', password := sampleHash ''other''\<rparr>] ! k)"
    then obtain k where k: "k < Suc (Suc 0)"
        "\<forall>j < k. username ([sampleUser, sampleUser\<lparr>uid := ''u-99'', password := sampleHash ''other''\<rparr>] ! j) \<noteq> ''krua''"
        "sampleHash ''other'' = password ([sampleUser, sampleUser\<lparr>uid := ''u-99'', password := sampleHash ''other''\<rparr>] ! k)"
      by auto
    from k(1) consider "k = 0" | "k = Suc 0" by linarith
    then show False
    proof cases
      case 1
      with k(3) show False by (simp add: krua sampleHash_def)
    next
      case 2
      with k(2) have "username ([sampleUser, sampleUser\<lparr>uid := ''u-99'', password := sampleHash ''other''\<rparr>] ! 0) \<noteq> ''krua''"
        by blast
      then show False by (simp add: krua)
    qed
  qed
  moreover have "fst (?auth duplicateUsers ''krua'' ''other'') =
        Some (withoutPassword (sampleUser\<lparr>uid := ''u-99'', password := sampleHash ''other''\<rparr>)) \<longleftrightarrow>
      (\<exists>k < length [sampleUser, sampleUser\<lparr>uid := ''u-99'', password := sampleHash ''other''\<rparr>].
      username ([sampleUser, sampleUser\<lparr>uid := ''u-99'', password := sampleHash ''other''\<rparr>] ! k) = ''krua''
      \<and> (\<forall>j < k. username ([sampleUser, sampleUser\<lparr>uid := ''u-99'', password := sampleHash ''other''\<rparr>] ! j) \<noteq> ''krua'')
      \<and> sampleHash ''other'' = password ([sampleUser, sampleUser\<lparr>uid := ''u-99'', password := sampleHash ''other''\<rparr>] ! k)
      \<and> withoutPassword (sampleUser\<lparr>uid := ''u-99'', password := sampleHash ''other''\<rparr>)
          = withoutPassword ([sampleUser, sampleUser\<lparr>uid := ''u-99'', password := sampleHash ''other''\<rparr>] ! k))"
    using t3 [THEN conjunct2, THEN conjunct2] by (simp only: us)
  ultimately have 3: "fst (?auth duplicateUsers ''krua'' ''other'')
       \<noteq> Some (withoutPassword (Users (spreadsheet duplicateUsers) ! 1))"
    by (simp only: us1) blast
  have f: "\<not> DB_INITIALIZED freshDeployment \<and> Users (spreadsheet freshDeployment) = []"
    by (simp add: freshDeployment_def)
  have c: "sampleClean [] = []" by (simp add: sampleClean_def)
  have seed: "map (\<lambda>r. r\<lparr>password := sampleHash (password r), uname := sampleClean (uname r)\<rparr>)
        sampleInitialUsers =
       [\<lparr>uid = ''1'', uname = [], username = ''admin'', password = sampleHash ''admin1234'',
          role = ''admin''\<rparr>,
        \<lparr>uid = ''2'', uname = [], username = ''A0941799831'',
          password = sampleHash ''A0941799831'', role = ''teacher''\<rparr>]"
    by (simp add: sampleInitialUsers_def c)
  note t4 = authenticate_first_match [of freshDeployment sampleHash sampleClean sampleInitialUsers
        "''admin''" "''admin1234''" ?admin]
  have 4: "Users (spreadsheet (snd (?auth freshDeployment ''admin'' ''admin1234''))) =
       [\<lparr>uid = ''1'', uname = [], username = ''admin'', password = sampleHash ''admin1234'',
          role = ''admin''\<rparr>,
        \<lparr>uid = ''2'', uname = [], username = ''A0941799831'',
          password = sampleHash ''A0941799831'', role = ''teacher''\<rparr>]"
    using t4 [THEN conjunct2, THEN conjunct1, THEN mp, OF f] by (simp only: seed)
  have gf: "Users (fst (getDB sampleHash sampleClean sampleInitialUsers freshDeployment)) =
       [\<lparr>uid = ''1'', uname = [], username = ''admin'', password = sampleHash ''admin1234'',
          role = ''admin''\<rparr>,
        \<lparr>uid = ''2'', uname = [], username = ''A0941799831'',
          password = sampleHash ''A0941799831'', role = ''teacher''\<rparr>]"
    using f by (simp add: getDB_first_request seed)
  have "\<exists>k < length [\<lparr>uid = ''1'', uname = [], username = ''admin'', password = sampleHash ''admin1234'',
          role = ''admin''\<rparr>,
        \<lparr>uid = ''2'', uname = [], username = ''A0941799831'',
          password = sampleHash ''A0941799831'', role = ''teacher''\<rparr>].
      username ([\<lparr>uid = ''1'', uname = [], username = ''admin'', password = sampleHash ''admin1234'',
          role = ''admin''\<rparr>,
        \<lparr>uid = ''2'', uname = [], username = ''A0941799831'',
          password = sampleHash ''A0941799831'', role = ''teacher''\<rparr>] ! k) = ''admin''
      \<and> (\<forall>j < k. username ([\<lparr>uid = ''1'', uname = [], username = ''admin'', password = sampleHash ''admin1234'',
          role = ''admin''\<rparr>,
        \<lparr>uid = ''2'', uname = [], username = ''A0941799831'',
          password = sampleHash ''A0941799831'', role = ''teacher''\<rparr>] ! j) \<noteq> ''admin'')
      \<and> sampleHash ''admin1234'' = password ([\<lparr>uid = ''1'', uname = [], username = ''admin'', password = sampleHash ''admin1234'',
          role = ''admin''\<rparr>,
        \<lparr>uid = ''2'', uname = [], username = ''A0941799831'',
          password = sampleHash ''A0941799831'', role = ''teacher''\<rparr>] ! k)
      \<and> ?admin = withoutPassword ([\<lparr>uid = ''1'', uname = [], username = ''admin'', password = sampleHash ''admin1234'',
          role = ''admin''\<rparr>,
        \<lparr>uid = ''2'', uname = [], username = ''A0941799831'',
          password = sampleHash ''A0941799831'', role = ''teacher''\<rparr>] ! k)"
    by (rule exI [of _ 0]) (simp add: withoutPassword_def)
  then have 5: "fst (?auth freshDeployment ''admin'' ''admin1234'') = Some ?admin"
    using t4 [THEN conjunct2, THEN conjunct2] by (simp only: gf)
  from i 1 2 3 f 4 5 show ?thesis by (simp only: prod_eq_iff fst_conv snd_conv) blast
qed

section \<open>The setup page and the service's key\<close>

text \<open>
  Claim C8. \<^verbatim>\<open>getScriptUrl\<close> reads the storage under the literal service URL while
  \<^verbatim>\<open>handleSaveUrl\<close> writes under \<^verbatim>\<open>google_script_url\<close>. So from any storage in which the
  service's key is unset (nothing in the application sets it), whatever is typed into the
  setup form, \<^verbatim>\<open>getScriptUrl\<close> still throws the not-configured error afterwards,
  \<^verbatim>\<open>apiRequest\<close> rethrows it before any request is sent, and no method of the service
  resolves with data or with success; this although a valid URL does end the setup page
  (\<^verbatim>\<open>isUrlSet\<close>).
\<close>

theorem setup_leaves_service_unconfigured:
  assumes "ls serviceKey = None"
  shows "getScriptUrl (handleSaveUrl ls scriptUrl) = Inl notConfigured
       \<and> apiRequest (handleSaveUrl ls scriptUrl) fetch a payload = Inl notConfigured
       \<and> serviceCall (handleSaveUrl ls scriptUrl) fetch m payload \<noteq> Success True None
       \<and> (\<forall>r. serviceCall (handleSaveUrl ls scriptUrl) fetch m payload \<noteq> Resolved r)
       \<and> (scriptUrl \<noteq> [] \<and> prefix ''https://script.google.com/macros/s/'' scriptUrl \<longrightarrow>
            isUrlSet (handleSaveUrl ls scriptUrl))"
proof -
  have k: "serviceKey \<noteq> ''google_script_url''" by (simp add: serviceKey_def)
  have g: "getScriptUrl (handleSaveUrl ls scriptUrl) = Inl notConfigured"
    using assms k by (simp add: getScriptUrl_def handleSaveUrl_def)
  then have a: "apiRequest (handleSaveUrl ls scriptUrl) fetch a payload = Inl notConfigured" for a
    by (simp add: apiRequest_def)
  show ?thesis using g a
    by (auto simp: serviceCall_def isUrlSet_def handleSaveUrl_def)
qed

theorem setup_leaves_service_unconfigured_witness:
  "Map.empty serviceKey = None
   \<and> isUrlSet (handleSaveUrl Map.empty ''https://script.google.com/macros/s/ABC/exec'')
   \<and> getScriptUrl (handleSaveUrl Map.empty ''https://script.google.com/macros/s/ABC/exec'')
       = Inl notConfigured"
  using setup_leaves_service_unconfigured
    [of Map.empty "''https://script.google.com/macros/s/ABC/exec''"
        "\<lambda>url a (p::unit). (Inr () :: error + unit)" "''getUsers''" "()" M_getUsers]
  by simp

section \<open>Updating one row\<close>

lemma findIndex_None: "findIndex P xs = None \<longleftrightarrow> (\<forall>x \<in> set xs. \<not> P x)"
  by (induction xs) auto

lemma findIndex_Some:
  "findIndex P xs = Some k \<longleftrightarrow> k < length xs \<and> P (xs ! k) \<and> (\<forall>j < k. \<not> P (xs ! j))"
proof (induction xs arbitrary: k)
  case Nil
  then show ?case by simp
next
  case (Cons x xs)
  show ?case
  proof (cases "P x")
    case True
    then show ?thesis by (cases k) auto
  next
    case False
    show ?thesis
    proof (cases k)
      case 0
      with False show ?thesis by auto
    next
      case (Suc n)
      have "(\<forall>j < Suc n. \<not> P ((x # xs) ! j)) \<longleftrightarrow> (\<forall>j < n. \<not> P (xs ! j))"
        using False by (auto simp: less_Suc_eq_0_disj)
      with False Suc Cons.IH [of n] show ?thesis by auto
    qed
  qed
qed

lemma find_findIndex: "find P xs = map_option (\<lambda>k. xs ! k) (findIndex P xs)"
  by (induction xs) (auto simp: option.map_comp comp_def)

lemma spread_confirm:
  "spread toCell row (noData\<lparr>d_status := Some st, d_returnedAt := Some t, d_returnedBy := Some a\<rparr>)
     = row\<lparr>status := st, returnedAt := Some t, returnedBy := a\<rparr>"
  by (simp add: spread_def noData_def)

lemma spread_status: "spread toCell row (noData\<lparr>d_status := Some st\<rparr>) = row\<lparr>status := st\<rparr>"
  by (simp add: spread_def noData_def)

lemma update_found:
  assumes "i \<noteq> []" and "findIndex (\<lambda>row. bid row = i) (Bookings s) = Some k"
  shows "addOrUpdateRecord_Bookings toCell e s d (Some i) =
           (Inr (Updated (updatedData (Bookings s ! k) d)),
            s\<lparr>Bookings := (Bookings s)[k := spread toCell (Bookings s ! k) d]\<rparr>)"
  using assms by (simp add: addOrUpdateRecord_Bookings_def)

lemma update_missing:
  assumes "i \<noteq> []" and "findIndex (\<lambda>row. bid row = i) (Bookings s) = None"
  shows "addOrUpdateRecord_Bookings toCell e s d (Some i) =
           (Inl (Error (''Record with ID '' @ i @ '' not found in Bookings.'')), s)"
  using assms by (simp add: addOrUpdateRecord_Bookings_def)

lemma update_empty_id:
  "addOrUpdateRecord_Bookings toCell e s d (Some []) =
     (Inr (Added (addedRecord e d)), s\<lparr>Bookings := Bookings s @ [newRecord toCell e d]\<rparr>)"
  by (simp add: addOrUpdateRecord_Bookings_def)

section \<open>Confirming a return\<close>

text \<open>
  For a non-empty booking id \<^verbatim>\<open>confirmReturn\<close> does what the specification says: it throws
  and leaves the spreadsheet alone when no row has the id, and otherwise rewrites the first
  row with that id, changing its status, returnedAt and returnedBy only.
\<close>

lemma confirmReturn_frame:
  assumes "bookingId \<noteq> []"
  shows "(bookingId \<notin> set (map bid (Bookings s)) \<longrightarrow>
            confirmReturn toCell e s bookingId adminName =
              (Inl (Error (''Record with ID '' @ bookingId @ '' not found in Bookings.'')), s))
       \<and> (\<forall>k < length (Bookings s).
            bid (Bookings s ! k) = bookingId \<and> (\<forall>j < k. bid (Bookings s ! j) \<noteq> bookingId) \<longrightarrow>
            confirmReturn toCell e s bookingId adminName =
              (Inr (Updated ((Bookings s ! k)\<lparr>status := ''Returned'', returnedAt := Some (now e),
                                              returnedBy := adminName\<rparr>)),
               s\<lparr>Bookings := (Bookings s)
                  [k := (Bookings s ! k)\<lparr>status := ''Returned'', returnedAt := Some (now e),
                                          returnedBy := adminName\<rparr>]\<rparr>))"
proof (intro conjI impI allI)
  assume "bookingId \<notin> set (map bid (Bookings s))"
  then have "findIndex (\<lambda>row. bid row = bookingId) (Bookings s) = None"
    by (auto simp: findIndex_None)
  with assms show "confirmReturn toCell e s bookingId adminName =
      (Inl (Error (''Record with ID '' @ bookingId @ '' not found in Bookings.'')), s)"
    by (simp add: confirmReturn_def update_missing)
next
  fix k
  assume "k < length (Bookings s)"
    and "bid (Bookings s ! k) = bookingId \<and> (\<forall>j < k. bid (Bookings s ! j) \<noteq> bookingId)"
  then have "findIndex (\<lambda>row. bid row = bookingId) (Bookings s) = Some k"
    by (simp add: findIndex_Some)
  with assms show "confirmReturn toCell e s bookingId adminName =
              (Inr (Updated ((Bookings s ! k)\<lparr>status := ''Returned'', returnedAt := Some (now e),
                                              returnedBy := adminName\<rparr>)),
               s\<lparr>Bookings := (Bookings s)
                  [k := (Bookings s ! k)\<lparr>status := ''Returned'', returnedAt := Some (now e),
                                          returnedBy := adminName\<rparr>]\<rparr>)"
    by (simp add: confirmReturn_def update_found updatedData_def spread_confirm)
qed

text \<open>
  Claim C6 says that \<^verbatim>\<open>confirmReturn\<close> throws for a booking id that does not exist and
  leaves all sheets unchanged. At the empty id it does not: no row of the sample sheet has
  the empty id, yet \<^verbatim>\<open>if (id)\<close> of \<^verbatim>\<open>addOrUpdateRecord\<close> is false for it, the Add branch
  runs, and a new row with the status Booked is appended to the Bookings sheet.
\<close>

theorem confirmReturn_empty_id:
  "[] \<notin> set (map bid (Bookings sampleDb))
   \<and> confirmReturn sampleToCell sampleEnv sampleDb [] ''Admin'' =
       (Inr (Added (phantomRecord (Some ''Admin'') (Some 1705286400000))),
        sampleDb\<lparr>Bookings := [sampleBooking, phantom ''Admin'' (Some 1705286400000)]\<rparr>)"
  by (simp add: confirmReturn_def addOrUpdateRecord_Bookings_def newRecord_def addedRecord_def
      noData_def orEmpty_def sampleDb_def sampleBooking_def sampleEnv_def phantom_def
      phantomRecord_def)

section \<open>Cancelling a booking\<close>

text \<open>
  For a non-empty booking id \<^verbatim>\<open>cancelBooking\<close> does what the specification says: it throws
  when no row has the id or when the stored status of the first such row is not Booked,
  leaving the spreadsheet alone, and otherwise sets that row's status to Not Used. Only
  the stored status is read, never the clock.
\<close>

lemma cancelBooking_stored_status:
  assumes "bookingId \<noteq> []"
  shows "(bookingId \<notin> set (map bid (Bookings s)) \<longrightarrow>
            cancelBooking toCell e s bookingId u = (Inl (Error ''Booking not found''), s))
       \<and> (\<forall>k < length (Bookings s).
            bid (Bookings s ! k) = bookingId \<and> (\<forall>j < k. bid (Bookings s ! j) \<noteq> bookingId) \<longrightarrow>
            cancelBooking toCell e s bookingId u =
              (if status (Bookings s ! k) \<noteq> ''Booked''
               then (Inl (Error ''Cannot cancel a booking that is already in use or completed.''), s)
               else (Inr (Updated ((Bookings s ! k)\<lparr>status := ''Not Used''\<rparr>)),
                     s\<lparr>Bookings := (Bookings s)[k := (Bookings s ! k)\<lparr>status := ''Not Used''\<rparr>]\<rparr>)))"
proof (intro conjI impI allI)
  assume "bookingId \<notin> set (map bid (Bookings s))"
  then have "find (\<lambda>b. bid b = bookingId) (Bookings s) = None"
    by (auto simp: find_None_iff)
  then show "cancelBooking toCell e s bookingId u = (Inl (Error ''Booking not found''), s)"
    by (simp add: cancelBooking_def)
next
  fix k
  assume "k < length (Bookings s)"
    and "bid (Bookings s ! k) = bookingId \<and> (\<forall>j < k. bid (Bookings s ! j) \<noteq> bookingId)"
  then have i: "findIndex (\<lambda>row. bid row = bookingId) (Bookings s) = Some k"
    by (simp add: findIndex_Some)
  then have f: "find (\<lambda>b. bid b = bookingId) (Bookings s) = Some (Bookings s ! k)"
    by (simp add: find_findIndex)
  show "cancelBooking toCell e s bookingId u =
              (if status (Bookings s ! k) \<noteq> ''Booked''
               then (Inl (Error ''Cannot cancel a booking that is already in use or completed.''), s)
               else (Inr (Updated ((Bookings s ! k)\<lparr>status := ''Not Used''\<rparr>)),
                     s\<lparr>Bookings := (Bookings s)[k := (Bookings s ! k)\<lparr>status := ''Not Used''\<rparr>]\<rparr>))"
    using assms i f by (simp add: cancelBooking_def update_found updatedData_def spread_status)
qed

lemma cancelBooking_while_in_use:
  "status (calculateBookingStatus_row bangkok (now sampleEnv) sampleBooking) = ''In Use''
   \<and> cancelBooking sampleToCell sampleEnv sampleDb ''b-1'' ''u-98'' =
       (Inr (Updated (sampleBooking\<lparr>status := ''Not Used''\<rparr>)),
        sampleDb\<lparr>Bookings := [sampleBooking\<lparr>status := ''Not Used''\<rparr>]\<rparr>)"
  by (simp add: cancelBooking_def addOrUpdateRecord_Bookings_def updatedData_def spread_status
      calculateBookingStatus_row_def periodTimes_def localDate_def bangkok_def
      sampleDb_def sampleBooking_def sampleEnv_def Let_def)

text \<open>
  Claim C7 says that \<^verbatim>\<open>cancelBooking\<close>, when the booking exists and its stored status is
  Booked, sets that booking's status to Not Used. For a row whose id cell is empty it does
  not: the row is found and is Booked, but \<^verbatim>\<open>if (id)\<close> of \<^verbatim>\<open>addOrUpdateRecord\<close> is false
  for the empty id, so the row keeps the status Booked and a second row is appended.
\<close>

theorem cancelBooking_empty_id:
  "find (\<lambda>b. bid b = []) (Bookings emptyIdDb) = Some (sampleBooking\<lparr>bid := []\<rparr>)
   \<and> status (sampleBooking\<lparr>bid := []\<rparr>) = ''Booked''
   \<and> cancelBooking sampleToCell sampleEnv emptyIdDb [] ''u-98'' =
       (Inr (Added (phantomRecord None None)),
        sampleDb\<lparr>Bookings := [sampleBooking\<lparr>bid := []\<rparr>, phantom [] None]\<rparr>)"
  by (simp add: cancelBooking_def addOrUpdateRecord_Bookings_def newRecord_def addedRecord_def
      noData_def orEmpty_def emptyIdDb_def sampleDb_def sampleBooking_def sampleEnv_def
      phantom_def phantomRecord_def)

section \<open>The invariant under the booking endpoints\<close>

text \<open>
  Deleting a row, confirming a return and cancelling (for a non-empty id) keep the sheet
  sound, and so does adding a booking whose date text the date column stores as a Date that
  formats back to the same text.
\<close>

lemma active_update:
  assumes "k < length rows" and "\<not> active r" and "atMostOneActive rows"
  shows "atMostOneActive (rows[k := r])"
proof -
  have rows: "rows = take k rows @ rows ! k # drop (Suc k) rows"
    using assms(1) by (simp add: id_take_nth_drop)
  have upd: "rows[k := r] = take k rows @ r # drop (Suc k) rows"
    using assms(1) by (simp add: upd_conv_take_nth_drop)
  have "distinct (map slot (filter active (take k rows @ rows ! k # drop (Suc k) rows)))"
    using assms(3) rows by (simp add: atMostOneActive_def)
  then have "distinct (map slot (filter active (take k rows @ drop (Suc k) rows)))"
    by (auto split: if_splits)
  then show ?thesis
    using assms(2) upd by (simp add: atMostOneActive_def)
qed

lemma active_delete:
  assumes "k < length rows" and "atMostOneActive rows"
  shows "atMostOneActive (take k rows @ drop (Suc k) rows)"
proof -
  have "distinct (map slot (filter active (take k rows @ rows ! k # drop (Suc k) rows)))"
    using assms by (simp add: atMostOneActive_def id_take_nth_drop [symmetric])
  then show ?thesis
    by (auto simp: atMostOneActive_def split: if_splits)
qed

lemma deleteBooking_preserves:
  "atMostOneActive (Bookings s) \<Longrightarrow> atMostOneActive (Bookings (snd (deleteBooking s i)))"
  by (auto simp: deleteBooking_def deleteRecord_Bookings_def findIndex_Some active_delete
      split: option.splits)

lemma confirmReturn_preserves:
  assumes "bookingId \<noteq> []" and "atMostOneActive (Bookings s)"
  shows "atMostOneActive (Bookings (snd (confirmReturn toCell e s bookingId adminName)))"
proof (cases "findIndex (\<lambda>row. bid row = bookingId) (Bookings s)")
  case None
  with assms show ?thesis by (simp add: confirmReturn_def update_missing)
next
  case (Some k)
  then have "k < length (Bookings s)" by (simp add: findIndex_Some)
  moreover have "\<not> active ((Bookings s ! k)\<lparr>status := ''Returned'', returnedAt := Some (now e),
      returnedBy := adminName\<rparr>)"
    by (simp add: active_def)
  ultimately show ?thesis
    using assms Some by (simp add: confirmReturn_def update_found spread_confirm active_update)
qed

lemma cancelBooking_preserves:
  assumes "bookingId \<noteq> []" and "atMostOneActive (Bookings s)"
  shows "atMostOneActive (Bookings (snd (cancelBooking toCell e s bookingId u)))"
proof (cases "findIndex (\<lambda>row. bid row = bookingId) (Bookings s)")
  case None
  with assms show ?thesis
    by (simp add: cancelBooking_def update_missing split: option.splits)
next
  case (Some k)
  then have "k < length (Bookings s)" by (simp add: findIndex_Some)
  moreover have "\<not> active ((Bookings s ! k)\<lparr>status := ''Not Used''\<rparr>)"
    by (simp add: active_def)
  ultimately show ?thesis
    using assms Some
    by (simp add: cancelBooking_def update_found spread_status active_update split: option.splits)
qed

lemma addBooking_preserves:
  assumes "d_classroom d = Some c" and "d_period d = Some p" and "d_date d = Some ds"
    and "toCell ds = DateCell t" and "formatDate t = ds"
    and "atMostOneActive (Bookings s)"
  shows "atMostOneActive (Bookings (snd (addBooking formatDate toCell e s d)))"
proof (cases "find (conflicts formatDate d) (Bookings s)")
  case (Some b)
  with assms show ?thesis by (simp add: addBooking_def)
next
  case None
  then have free: "\<forall>b \<in> set (Bookings s). \<not> conflicts formatDate d b"
    by (auto simp: find_None_iff)
  have sl: "slot (newRecord toCell e d) = (c, DateCell t, readNumber p)"
    using assms by (simp add: slot_def newRecord_def orEmpty_def)
  have "slot b \<noteq> (c, DateCell t, readNumber p)" if "b \<in> set (Bookings s)" "active b" for b
    using that free assms by (auto simp: conflicts_def slot_def active_def)
  then have "slot (newRecord toCell e d) \<notin> set (map slot (filter active (Bookings s)))"
    unfolding sl by force
  with assms(6) None show ?thesis
    by (simp add: addBooking_def update_empty_id addOrUpdateRecord_Bookings_def Let_def
        atMostOneActive_def)
qed

text \<open>
  Claim C3 says that every endpoint that writes the Bookings sheet keeps at most one
  active booking per classroom, date and period. \<^verbatim>\<open>updateBooking\<close> does not: it has no
  conflict check. On a sound sheet with two active bookings of the same day and period in
  two classrooms, the payload of the booking form that moves the second booking into the
  first one's classroom is written as it is, and the sheet then holds two active bookings
  of one classroom, date and period.
\<close>

theorem updateBooking_breaks_invariant:
  "atMostOneActive (Bookings twoBookingsDb)
   \<and> updateBooking sampleToCell sampleEnv twoBookingsDb ''b-3'' editPayload =
       (Inr (Updated (sampleBooking\<lparr>bid := ''b-3'', learningPlan := ''Plan 2'',
                                     date := OtherCell ''2024-01-15''\<rparr>)),
        sampleDb\<lparr>Bookings := [sampleBooking, sampleBooking\<lparr>bid := ''b-3'', learningPlan := ''Plan 2''\<rparr>]\<rparr>)
   \<and> \<not> atMostOneActive (Bookings (snd (updateBooking sampleToCell sampleEnv twoBookingsDb ''b-3'' editPayload)))"
  by (simp add: updateBooking_def addOrUpdateRecord_Bookings_def twoBookingsDb_def editPayload_def
      noData_def updatedData_def spread_def sampleDb_def sampleBooking_def sampleToCell_15
      readNumber_small atMostOneActive_def active_def slot_def)

section \<open>Reports\<close>

text \<open>
  As instants, \<^verbatim>\<open>getReportData\<close> filters as the specification says: its result is the
  list of \<^verbatim>\<open>getBookingsWithStatus\<close> (every row of the sheet with its derived status, newest
  first) restricted to the rows that pass each filter whose text is not empty, where a date
  filter compares \<^verbatim>\<open>new Date(b.date)\<close> with \<^verbatim>\<open>new Date(text)\<close>.
\<close>

lemma whenGiven_filter:
  "whenGiven k p data = filter (\<lambda>b. \<forall>v. k = Some v \<and> v \<noteq> [] \<longrightarrow> p v b) data"
  by (cases k) (auto simp: whenGiven_def intro: filter_cong)

lemma calculateBookingStatus_row_createdAt:
  "createdAt (calculateBookingStatus_row off nowv b) = createdAt b"
  by (simp add: calculateBookingStatus_row_def Let_def split: cell_date.splits option.splits)

lemma calculateBookingStatus_row_fields:
  "date (calculateBookingStatus_row off nowv b) = date b
   \<and> program (calculateBookingStatus_row off nowv b) = program b
   \<and> userId (calculateBookingStatus_row off nowv b) = userId b
   \<and> equipment (calculateBookingStatus_row off nowv b) = equipment b"
  by (simp add: calculateBookingStatus_row_def Let_def split: cell_date.splits option.splits)

lemma getBookingsWithStatus_newest_first:
  "sorted_wrt (\<lambda>a b. createdAt a \<ge> createdAt b) (getBookingsWithStatus off nowv s)"
proof -
  have "sorted (map (\<lambda>b. - createdAt b) (sort_key (\<lambda>b. - createdAt b) (Bookings s)))"
    by (rule sorted_sort_key)
  then have "sorted_wrt (\<lambda>a b. createdAt a \<ge> createdAt b) (sort_key (\<lambda>b. - createdAt b) (Bookings s))"
    by (simp add: sorted_map)
  then show ?thesis
    by (simp add: getBookingsWithStatus_def calculateBookingStatus_def sorted_wrt_map
        calculateBookingStatus_row_createdAt)
qed

lemma getBookingsWithStatus_rows:
  "mset (getBookingsWithStatus off nowv s) =
     image_mset (calculateBookingStatus_row off nowv) (mset (Bookings s))"
  by (simp add: getBookingsWithStatus_def calculateBookingStatus_def)

lemma getReportData_filters:
  "getReportData parseDate off nowv s f =
     filter (\<lambda>b.
        (\<forall>v. startDate f = Some v \<and> v \<noteq> [] \<longrightarrow>
           truthyCell (date b) \<and> geDate (newDate parseDate (date b)) (parseDate v))
      \<and> (\<forall>v. endDate f = Some v \<and> v \<noteq> [] \<longrightarrow>
           truthyCell (date b) \<and> leDate (newDate parseDate (date b)) (parseDate v))
      \<and> (\<forall>v. f_program f = Some v \<and> v \<noteq> [] \<longrightarrow> program b = v)
      \<and> (\<forall>v. teacherId f = Some v \<and> v \<noteq> [] \<longrightarrow> userId b = v)
      \<and> (\<forall>v. equipmentId f = Some v \<and> v \<noteq> [] \<longrightarrow> (\<exists>xs. equipment b = Some xs \<and> v \<in> set xs)))
       (getBookingsWithStatus off nowv s)"
proof -
  have eq: "(case equipment b of Some xs \<Rightarrow> v \<in> set xs | None \<Rightarrow> False)
      \<longleftrightarrow> (\<exists>xs. equipment b = Some xs \<and> v \<in> set xs)" for b :: booking and v
    by (cases "equipment b") auto
  show ?thesis
    unfolding getReportData_def Let_def whenGiven_filter filter_filter eq
    by (rule filter_cong) auto
qed

lemma getReportData_newest_first:
  "sorted_wrt (\<lambda>a b. createdAt a \<ge> createdAt b) (getReportData parseDate off nowv s f)"
  unfolding getReportData_filters
  by (rule sorted_wrt_filter) (rule getBookingsWithStatus_newest_first)

lemma sampleParseDate_15: "sampleParseDate ''2024-01-15'' = Some 1705276800000"
  by code_simp

lemma sampleParseDate_runs_over: "sampleParseDate ''2024-02-30'' = sampleParseDate ''2024-03-01''"
  by code_simp

lemma sampleParseDate_slashes: "sampleParseDate ''2024/01/15'' = Some 1705251600000"
  by code_simp

lemma sample_derived:
  "getBookingsWithStatus bangkok (now sampleEnv) sampleDb = [sampleBooking\<lparr>status := ''In Use''\<rparr>]"
  by (simp add: getBookingsWithStatus_def calculateBookingStatus_def calculateBookingStatus_row_def
      sampleDb_def sampleBooking_def sampleEnv_def periodTimes_def localDate_def bangkok_def Let_def)

text \<open>
  \<^verbatim>\<open>new Date('2024-01-15')\<close> is midnight UTC. A report whose start and end are that one day
  keeps a booking only if its date cell is that very instant, which is 07:00 in the
  backend's time zone: whatever hour of the day the date column stores, one of the two
  filters drops a booking of the boundary day.
\<close>

lemma getReportData_one_day:
  assumes "Bookings s = [b]" and "date b = DateCell t" and "t \<noteq> 1705276800000"
  shows "getReportData sampleParseDate off nowv s
           (noFilters\<lparr>startDate := Some ''2024-01-15'', endDate := Some ''2024-01-15''\<rparr>) = []"
proof -
  have g: "getBookingsWithStatus off nowv s = [calculateBookingStatus_row off nowv b]"
    using assms(1) by (simp add: getBookingsWithStatus_def calculateBookingStatus_def)
  have d: "date (calculateBookingStatus_row off nowv b) = DateCell t"
    using assms(2) by (simp add: calculateBookingStatus_row_fields)
  show ?thesis
    unfolding getReportData_filters g
    using assms(3) d
    by (auto simp: noFilters_def sampleParseDate_15 newDate_def geDate_def leDate_def)
qed

text \<open>
  Claim C9 says that a booking passes the start filter when its date is on or after
  \<^verbatim>\<open>startDate\<close>. On the sample platform it does not on the start day itself: the booking
  of 15 January 2024 is stored as that day's midnight in Bangkok, which is 17:00 UTC of the
  day before, while \<^verbatim>\<open>new Date('2024-01-15')\<close> is midnight UTC; the report from
  2024-01-15 on is empty. The end filter with the same text keeps the booking.
\<close>

theorem getReportData_start_day_excluded:
  "date sampleBooking = sampleToCell ''2024-01-15''
   \<and> sampleFormatDate 1705251600000 = ''2024-01-15''
   \<and> Bookings sampleDb = [sampleBooking]
   \<and> getReportData sampleParseDate bangkok (now sampleEnv) sampleDb
        (noFilters\<lparr>startDate := Some ''2024-01-15''\<rparr>) = []
   \<and> getReportData sampleParseDate bangkok (now sampleEnv) sampleDb
        (noFilters\<lparr>endDate := Some ''2024-01-15''\<rparr>) = [sampleBooking\<lparr>status := ''In Use''\<rparr>]"
proof -
  have d: "date sampleBooking = DateCell 1705251600000" by (simp add: sampleBooking_def)
  have b: "Bookings sampleDb = [sampleBooking]" by (simp add: sampleDb_def)
  show ?thesis
    by (simp add: d b sampleToCell_15 sampleFormatDate_15 sampleParseDate_15 getReportData_def
        sample_derived whenGiven_def noFilters_def newDate_def geDate_def leDate_def truthyCell_def
        Let_def)
qed

end
